theory Spec2Isabelle
  imports Complex_Main
begin

section \<open>Rent vs Buy: the year-by-year projection of \<^verbatim>\<open>rent_vs_buy_app.py\<close>\<close>

text \<open>
  The application reads a handful of numbers from sidebar widgets, builds one loan object
  with the third-party class \<^verbatim>\<open>mortgage.Loan\<close>, and fills seven pandas series indexed by
  the years \<open>0..time_frame\<close>, which it then plots.

  Conventions of the embedding:
  \<^item> Python floats (and the \<^verbatim>\<open>Decimal\<close> values of the loan, converted with \<^verbatim>\<open>float\<close>)
    are real numbers: rounding is not modelled.
  \<^item> A pandas series with the default index \<open>0..n-1\<close> is the list of its values.
  \<^item> An exception is a value \<open>Inl e\<close>; a normal result is \<open>Inr v\<close>.
  \<^item> \<^verbatim>\<open>mortgage.Loan\<close> is not part of the repository: the constructor is a parameter of
    the model, a function that may fail or return a loan object.
  \<^item> The market rates, the horizon and the rent cap, which \<^verbatim>\<open>main\<close> fixes as local
    constants, are fields of the parameter record of \<open>project\<close>; \<open>main\<close> sets them to the
    source's values.
  \<^item> The model covers \<^verbatim>\<open>main\<close> up to the last series (line 196). The plots and the
    report text that follow are not modelled.
\<close>

subsection \<open>Errors\<close>

datatype error =
    IndexError    \<comment> \<open>positional write past the end of a series\<close>
  | LoanError     \<comment> \<open>any exception raised inside the loan package\<close>

definition bind_err :: "error + 'a \<Rightarrow> ('a \<Rightarrow> error + 'b) \<Rightarrow> error + 'b" where
  "bind_err m f = (case m of Inl e \<Rightarrow> Inl e | Inr x \<Rightarrow> f x)"

subsection \<open>The loan object\<close>

text \<open>
  What \<^verbatim>\<open>main\<close> uses of a loan: the attribute \<^verbatim>\<open>monthly_payment\<close> and the balance of
  \<^verbatim>\<open>schedule(n)\<close>, a call into the package that may raise.
\<close>

record loan =
  monthly_payment :: real
  schedule_balance :: "nat \<Rightarrow> error + real"

type_synonym loan_ctor = "real \<Rightarrow> real \<Rightarrow> nat \<Rightarrow> error + loan"
  \<comment> \<open>\<^verbatim>\<open>Loan(principal=..., interest=..., term=...)\<close>\<close>

subsection \<open>Series primitives\<close>

type_synonym series = "real list"

definition zeros :: "nat \<Rightarrow> series" where
  \<comment> \<open>\<^verbatim>\<open>pd.Series(data=np.zeros(n))\<close>\<close>
  "zeros n = replicate n 0"

definition iloc_set :: "series \<Rightarrow> nat \<Rightarrow> real \<Rightarrow> error + series" where
  \<comment> \<open>\<^verbatim>\<open>s.iloc[i] = v\<close>: a position past the end raises IndexError\<close>
  "iloc_set s i v = (if i < length s then Inr (s[i := v]) else Inl IndexError)"

definition iloc_set_slice :: "series \<Rightarrow> nat \<Rightarrow> nat \<Rightarrow> real \<Rightarrow> series" where
  \<comment> \<open>\<^verbatim>\<open>s.iloc[lo:hi] = v\<close>: slice bounds past the end are clipped, nothing is raised\<close>
  "iloc_set_slice s lo hi v =
     map (\<lambda>(i, x). if lo \<le> i \<and> i < hi then v else x) (enumerate 0 s)"

definition iloc_set_from :: "series \<Rightarrow> nat \<Rightarrow> real \<Rightarrow> series" where
  \<comment> \<open>\<^verbatim>\<open>s.iloc[lo:] = v\<close> and \<^verbatim>\<open>s[lo:] = v\<close>\<close>
  "iloc_set_from s lo v = iloc_set_slice s lo (length s) v"

definition setitem :: "series \<Rightarrow> nat \<Rightarrow> real \<Rightarrow> series" where
  \<comment> \<open>\<^verbatim>\<open>s[k] = v\<close> for a label \<open>k\<close> of the index. Every series here has the index
      \<open>0..time_frame\<close> and \<open>k\<close> is \<open>0\<close> or a value of \<^verbatim>\<open>years\<close>, so the label exists.\<close>
  "setitem s k v = s[k := v]"

definition series_mul :: "series \<Rightarrow> series \<Rightarrow> series" where
  "series_mul a b = map2 (*) a b"

definition series_add :: "series \<Rightarrow> series \<Rightarrow> series" where
  "series_add a b = map2 (+) a b"

definition series_sub :: "series \<Rightarrow> series \<Rightarrow> series" where
  "series_sub a b = map2 (-) a b"

definition series_scale :: "series \<Rightarrow> real \<Rightarrow> series" where
  \<comment> \<open>series times a scalar\<close>
  "series_scale a c = map (\<lambda>x. x * c) a"

definition loc_set_where_gt :: "series \<Rightarrow> real \<Rightarrow> real \<Rightarrow> series" where
  \<comment> \<open>\<^verbatim>\<open>s.loc[s > m] = v\<close>\<close>
  "loc_set_where_gt s m v = map (\<lambda>x. if x > m then v else x) s"

fun cumprod_from :: "real \<Rightarrow> series \<Rightarrow> series" where
  "cumprod_from acc [] = []"
| "cumprod_from acc (x # xs) = (acc * x) # cumprod_from (acc * x) xs"

definition cumprod :: "series \<Rightarrow> series" where
  "cumprod s = cumprod_from 1 s"

subsection \<open>Reading the inputs\<close>

text \<open>
  Each reader is modelled as the function from the raw widget values to the tuple it
  returns. The widgets bound their values (house price 300000..5000000, deposit 0..100,
  term 5..30, loan rate 1.0..10.0, the cost sliders from 0, rent 100..5000, returns
  0..20); integer widgets are \<open>int\<close>, the term is a \<open>nat\<close>.
\<close>

definition read_loan_inputs :: "int \<Rightarrow> int \<Rightarrow> nat \<Rightarrow> real \<Rightarrow> real \<times> real \<times> nat \<times> real" where
  "read_loan_inputs house_price deposit_pct term home_loan_rate =
     (let home_loan_rate_daily_compound = (1 + home_loan_rate / 100 / 365) ^ 365 - 1
      in (real_of_int house_price, real_of_int deposit_pct / 100, term,
          home_loan_rate_daily_compound))"

definition read_ownership_cost_input :: "int \<Rightarrow> int \<Rightarrow> int \<Rightarrow> real \<times> real \<times> real" where
  "read_ownership_cost_input strata_council_cost home_insurance transport_cost =
     (real_of_int strata_council_cost, real_of_int home_insurance, real_of_int transport_cost)"

definition read_rent_inputs :: "int \<Rightarrow> real" where
  "read_rent_inputs weekly_rent = real_of_int weekly_rent"

definition read_investment_inputs :: "int \<Rightarrow> int \<Rightarrow> real \<times> real" where
  "read_investment_inputs property_return portfolio_return =
     (real_of_int property_return / 100, real_of_int portfolio_return / 100)"

subsection \<open>The projection\<close>

record params =
  inflation :: real
  rent_inflation :: real
  property_return :: real
  portfolio_return :: real
  time_frame :: nat
  max_rent :: real
  house_price :: real
  deposit_pct :: real
  loan_term :: nat  \<comment> \<open>\<^verbatim>\<open>term\<close> in the source\<close>
  home_loan_rate :: real
  strata_council_cost :: real
  home_insurance :: real
  transport_cost :: real
  weekly_rent :: real

record projection =
  years :: "nat list"
  ownershipCost :: series          \<comment> \<open>\<^verbatim>\<open>ownership_costs\<close>\<close>
  loanPayment :: series            \<comment> \<open>\<^verbatim>\<open>loan_payments\<close>\<close>
  rentCost :: series               \<comment> \<open>\<^verbatim>\<open>rent_costs\<close>\<close>
  expenseDifference :: series      \<comment> \<open>\<^verbatim>\<open>savings_rent_vs_buy\<close>\<close>
  loanBalance :: series            \<comment> \<open>\<^verbatim>\<open>balances\<close>\<close>
  propertyAssetValue :: series     \<comment> \<open>\<^verbatim>\<open>asset_values_owning\<close>\<close>
  portfolioAssetValue :: series    \<comment> \<open>\<^verbatim>\<open>asset_values_renting\<close>\<close>

definition deposit_amt :: "params \<Rightarrow> real" where
  "deposit_amt p = house_price p * deposit_pct p"

definition home_loan :: "loan_ctor \<Rightarrow> params \<Rightarrow> error + loan" where
  "home_loan Loan p = Loan (house_price p - deposit_amt p) (home_loan_rate p) (loan_term p)"

definition maintenance_cost :: "params \<Rightarrow> real" where
  "maintenance_cost p = 0.01 * house_price p"

definition total_ownership_cost :: "params \<Rightarrow> real" where
  "total_ownership_cost p =
     maintenance_cost p + strata_council_cost p * 4 + home_insurance p * 12
       + transport_cost p * 52"

definition years_of :: "params \<Rightarrow> nat list" where
  \<comment> \<open>\<^verbatim>\<open>np.arange(time_frame+1)\<close>\<close>
  "years_of p = [0 ..< time_frame p + 1]"

definition cumulative_inflation :: "params \<Rightarrow> series" where
  "cumulative_inflation p = map (\<lambda>x. (1 + inflation p) ^ x) (years_of p)"

definition cumulative_rent_inflation :: "params \<Rightarrow> series" where
  "cumulative_rent_inflation p = map (\<lambda>x. (1 + rent_inflation p) ^ x) (years_of p)"

definition loan_payments :: "loan \<Rightarrow> params \<Rightarrow> error + series" where
  "loan_payments hl p =
     iloc_set
       (iloc_set_slice (zeros (time_frame p + 1)) 1 (loan_term p + 1) (monthly_payment hl * 12))
       0 (deposit_amt p)"

definition ownership_costs :: "params \<Rightarrow> error + series" where
  "ownership_costs p =
     bind_err (iloc_set (iloc_set_from (zeros (time_frame p + 1)) 1 (total_ownership_cost p)) 0 0)
       (\<lambda>s. Inr (series_mul s (cumulative_inflation p)))"

definition rent_costs :: "params \<Rightarrow> error + series" where
  "rent_costs p =
     bind_err (iloc_set (iloc_set_from (zeros (time_frame p + 1)) 1 (weekly_rent p * 52)) 0 0)
       (\<lambda>s. Inr (loc_set_where_gt (series_mul s (cumulative_rent_inflation p))
                    (max_rent p) (max_rent p)))"

definition yearly_property_returns :: "params \<Rightarrow> series" where
  "yearly_property_returns p =
     iloc_set_from (setitem (zeros (time_frame p + 1)) 0 1) 1 (1 + property_return p)"

definition cumulative_property_return :: "params \<Rightarrow> series" where
  "cumulative_property_return p = cumprod (yearly_property_returns p)"

text \<open>
  \<^verbatim>\<open>for year in range(term): balance = float(home_loan.schedule(12*year + 1).balance);
  balances.iloc[year] = balance\<close>
\<close>

fun balances_loop :: "loan \<Rightarrow> nat list \<Rightarrow> series \<Rightarrow> error + series" where
  "balances_loop hl [] balances = Inr balances"
| "balances_loop hl (year # rest) balances =
     (case schedule_balance hl (12 * year + 1) of
        Inl e \<Rightarrow> Inl e
      | Inr balance \<Rightarrow>
          (case iloc_set balances year balance of
             Inl e \<Rightarrow> Inl e
           | Inr balances' \<Rightarrow> balances_loop hl rest balances'))"

definition balances_of :: "loan \<Rightarrow> params \<Rightarrow> error + series" where
  "balances_of hl p = balances_loop hl [0 ..< loan_term p] (zeros (time_frame p + 1))"

text \<open>
  \<^verbatim>\<open>for year in years: asset_value = (asset_value * (1+portfolio_return)) +
  savings_rent_vs_buy[year]; asset_values_renting[year] = asset_value\<close>
\<close>

fun renting_loop :: "real \<Rightarrow> series \<Rightarrow> nat list \<Rightarrow> real \<Rightarrow> series \<Rightarrow> series" where
  "renting_loop r savings [] asset_value asset_values_renting = asset_values_renting"
| "renting_loop r savings (year # rest) asset_value asset_values_renting =
     (let asset_value' = (asset_value * (1 + r)) + savings ! year
      in renting_loop r savings rest asset_value'
           (setitem asset_values_renting year asset_value'))"

definition build_series :: "params \<Rightarrow> loan \<Rightarrow> error + projection" where
  \<comment> \<open>lines 153 to 196 of \<^verbatim>\<open>main\<close>, in the order of the source\<close>
  "build_series p hl =
     bind_err (loan_payments hl p) (\<lambda>loan_payments.
     bind_err (ownership_costs p) (\<lambda>ownership_costs.
     bind_err (rent_costs p) (\<lambda>rent_costs.
       let savings_rent_vs_buy =
             series_sub (series_add ownership_costs loan_payments) rent_costs
       in
     bind_err (balances_of hl p) (\<lambda>balances.
       let asset_values_owning =
             series_sub (series_scale (cumulative_property_return p) (house_price p)) balances;
           asset_values_renting =
             renting_loop (portfolio_return p) savings_rent_vs_buy (years_of p) 0
               (zeros (time_frame p + 1))
       in Inr \<lparr> years = years_of p,
                ownershipCost = ownership_costs,
                loanPayment = loan_payments,
                rentCost = rent_costs,
                expenseDifference = savings_rent_vs_buy,
                loanBalance = balances,
                propertyAssetValue = asset_values_owning,
                portfolioAssetValue = asset_values_renting \<rparr>))))"

definition project :: "loan_ctor \<Rightarrow> params \<Rightarrow> error + projection" where
  \<comment> \<open>the loan is built first (line 135); its failure ends the run\<close>
  "project Loan p = bind_err (home_loan Loan p) (build_series p)"

subsection \<open>The entry point\<close>

record widgets =
  w_house_price :: int
  w_deposit_pct :: int
  w_term :: nat
  w_home_loan_rate :: real
  w_strata_council_cost :: int
  w_home_insurance :: int
  w_transport_cost :: int
  w_weekly_rent :: int
  w_change_default_investment_setting :: bool
  w_property_return :: int
  w_portfolio_return :: int

definition main_params :: "widgets \<Rightarrow> params" where
  \<comment> \<open>lines 122 to 148: the constants of \<^verbatim>\<open>main\<close> and the values read from the sidebar\<close>
  "main_params w =
     (case read_loan_inputs (w_house_price w) (w_deposit_pct w) (w_term w) (w_home_loan_rate w) of
        (hp, dp, t, rate) \<Rightarrow>
     (case read_ownership_cost_input (w_strata_council_cost w) (w_home_insurance w)
             (w_transport_cost w) of
        (strata, insurance, transport) \<Rightarrow>
     (case (if w_change_default_investment_setting w
            then read_investment_inputs (w_property_return w) (w_portfolio_return w)
            else (0.03, 0.05)) of
        (prop_ret, port_ret) \<Rightarrow>
       \<lparr> inflation = 0.02,
         rent_inflation = 0.03,
         property_return = prop_ret,
         portfolio_return = port_ret,
         time_frame = 50,
         max_rent = 100000,
         house_price = hp,
         deposit_pct = dp,
         loan_term = t,
         home_loan_rate = rate,
         strata_council_cost = strata,
         home_insurance = insurance,
         transport_cost = transport,
         weekly_rent = read_rent_inputs (w_weekly_rent w) \<rparr>)))"

definition main :: "loan_ctor \<Rightarrow> widgets \<Rightarrow> error + projection" where
  "main Loan w = project Loan (main_params w)"

subsection \<open>Auxiliary definitions\<close>

text \<open>
  The value of \<^verbatim>\<open>asset_value\<close> after the renting loop has run through a list of years,
  used to state what the loop leaves in the series.
\<close>

fun asset_value_after :: "real \<Rightarrow> series \<Rightarrow> nat list \<Rightarrow> real \<Rightarrow> real" where
  "asset_value_after r sv [] v = v"
| "asset_value_after r sv (year # rest) v = asset_value_after r sv rest (v * (1 + r) + sv ! year)"

text \<open>
  A concrete loan package, to run the projection on explicit numbers: standard
  fixed-rate amortisation with monthly rate \<open>interest / 12\<close>, rejecting a non-positive
  amount, a negative rate and a zero term. With rate \<open>0\<close> the payment is
  \<open>amount / n\<close> and the balance falls linearly.
\<close>

definition ex_Loan :: loan_ctor where
  "ex_Loan amount interest n_years =
     (if amount \<le> 0 \<or> interest < 0 \<or> n_years = 0 then Inl LoanError
      else let r = interest / 12; n = 12 * n_years;
               payment = (if r = 0 then amount / real n
                          else amount * r / (1 - 1 / (1 + r) ^ n))
           in Inr \<lparr> monthly_payment = payment,
                    schedule_balance = (\<lambda>k.
                      if n < k then Inl IndexError
                      else Inr (if r = 0 then amount - real k * payment
                                else amount * (1 + r) ^ k - payment * ((1 + r) ^ k - 1) / r)) \<rparr>)"

definition ex_params :: params where
  "ex_params =
     \<lparr> inflation = 0.02, rent_inflation = 0.03, property_return = 0.03,
       portfolio_return = 0.05, time_frame = 3, max_rent = 38000,
       house_price = 800000, deposit_pct = 0.1, loan_term = 2, home_loan_rate = 0,
       strata_council_cost = 1500, home_insurance = 60, transport_cost = 200,
       weekly_rent = 690 \<rparr>"

definition ex_out :: projection where
  "ex_out =
     \<lparr> years = [0, 1, 2, 3],
       ownershipCost = [0, 128112 / 5, 3266856 / 125, 83304828 / 3125],
       loanPayment = [80000, 360000, 360000, 0],
       rentCost = [0, 184782 / 5, 38000, 38000],
       expenseDifference = [80000, 348666, 43516856 / 125, - (35445172 / 3125)],
       loanBalance = [690000, 330000, 0, 0],
       propertyAssetValue = [110000, 494000, 848720, 4370908 / 5],
       portfolioAssetValue = [80000, 432666, 200608537 / 250, 20780335009 / 25000] \<rparr>"

text \<open>
  A variation of the example whose horizon is shorter than the loan term by two years.
\<close>

definition short_params :: params where
  "short_params = ex_params \<lparr> time_frame := 0 \<rparr>"





section \<open>Properties of the primitives\<close>

lemma length_zeros [simp]: "length (zeros n) = n"
  by (simp add: zeros_def)

lemma nth_zeros [simp]: "i < n \<Longrightarrow> zeros n ! i = 0"
  by (simp add: zeros_def)

lemma length_iloc_set_slice [simp]: "length (iloc_set_slice s lo hi v) = length s"
  by (simp add: iloc_set_slice_def)

lemma nth_iloc_set_slice:
  "i < length s \<Longrightarrow> iloc_set_slice s lo hi v ! i = (if lo \<le> i \<and> i < hi then v else s ! i)"
  by (simp add: iloc_set_slice_def nth_enumerate_eq)

lemma length_iloc_set_from [simp]: "length (iloc_set_from s lo v) = length s"
  by (simp add: iloc_set_from_def)

lemma nth_iloc_set_from:
  "i < length s \<Longrightarrow> iloc_set_from s lo v ! i = (if lo \<le> i then v else s ! i)"
  by (simp add: iloc_set_from_def nth_iloc_set_slice)

lemma iloc_set_in_range: "i < length s \<Longrightarrow> iloc_set s i v = Inr (s[i := v])"
  by (simp add: iloc_set_def)

lemma nth_series_sub:
  "i < length a \<Longrightarrow> i < length b \<Longrightarrow> series_sub a b ! i = a ! i - b ! i"
  by (simp add: series_sub_def)

lemma nth_series_add:
  "i < length a \<Longrightarrow> i < length b \<Longrightarrow> series_add a b ! i = a ! i + b ! i"
  by (simp add: series_add_def)

lemma length_series_sub [simp]: "length (series_sub a b) = min (length a) (length b)"
  by (simp add: series_sub_def)

lemma length_series_add [simp]: "length (series_add a b) = min (length a) (length b)"
  by (simp add: series_add_def)

lemma length_series_scale [simp]: "length (series_scale a c) = length a"
  by (simp add: series_scale_def)

lemma nth_series_scale: "i < length a \<Longrightarrow> series_scale a c ! i = a ! i * c"
  by (simp add: series_scale_def)

lemma length_years_of [simp]: "length (years_of p) = time_frame p + 1"
  by (simp add: years_of_def)

lemma nth_years_of: "y \<le> time_frame p \<Longrightarrow> years_of p ! y = y"
  unfolding years_of_def by (metis add_0 less_Suc_eq_le nth_upt Suc_eq_plus1)

lemma loan_payments_eq:
  "loan_payments hl p =
     Inr (map (\<lambda>y. if y = 0 then deposit_amt p
                    else if y \<le> loan_term p then monthly_payment hl * 12 else 0) (years_of p))"
  unfolding loan_payments_def
  by (auto simp: iloc_set_in_range nth_list_update nth_iloc_set_slice nth_years_of intro!: nth_equalityI)

lemma ownership_costs_eq:
  "ownership_costs p =
     Inr (map (\<lambda>y. if y = 0 then 0 else total_ownership_cost p * (1 + inflation p) ^ y) (years_of p))"
  unfolding ownership_costs_def bind_err_def cumulative_inflation_def series_mul_def
  by (auto simp: iloc_set_in_range nth_list_update nth_iloc_set_from nth_years_of intro!: nth_equalityI)

lemma rent_costs_eq:
  "rent_costs p =
     Inr (map (\<lambda>y. if y = 0 then (if 0 > max_rent p then max_rent p else 0)
                    else min (weekly_rent p * 52 * (1 + rent_inflation p) ^ y) (max_rent p)) (years_of p))"
  unfolding rent_costs_def bind_err_def cumulative_rent_inflation_def series_mul_def loc_set_where_gt_def
  by (auto simp: iloc_set_in_range nth_list_update nth_iloc_set_from nth_years_of min_def intro!: nth_equalityI)

lemma length_cumprod_from [simp]: "length (cumprod_from acc xs) = length xs"
  by (induction xs arbitrary: acc) auto

lemma nth_cumprod_from_replicate:
  "i < n \<Longrightarrow> cumprod_from acc (replicate n c) ! i = acc * c ^ Suc i"
proof (induction n arbitrary: acc i)
  case 0
  then show ?case by simp
next
  case (Suc n)
  then show ?case by (cases i) (auto simp: mult.assoc)
qed

lemma yearly_property_returns_eq:
  "yearly_property_returns p = 1 # replicate (time_frame p) (1 + property_return p)"
  unfolding yearly_property_returns_def setitem_def
  by (auto simp: nth_iloc_set_from nth_list_update nth_Cons' intro!: nth_equalityI)

lemma cumulative_property_return_eq:
  "cumulative_property_return p = map (\<lambda>y. (1 + property_return p) ^ y) (years_of p)"
  unfolding cumulative_property_return_def cumprod_def yearly_property_returns_eq
  by (auto simp: nth_Cons' nth_cumprod_from_replicate nth_years_of intro!: nth_equalityI)

subsection \<open>The balance loop\<close>

lemma balances_loop_length:
  "balances_loop hl ys bs = Inr bs' \<Longrightarrow> length bs' = length bs"
  by (induction ys arbitrary: bs) (auto simp: iloc_set_def split: sum.splits if_splits)

lemma balances_loop_untouched:
  "balances_loop hl ys bs = Inr bs' \<Longrightarrow> y \<notin> set ys \<Longrightarrow> bs' ! y = bs ! y"
  by (induction ys arbitrary: bs) (auto simp: iloc_set_def split: sum.splits if_splits)

lemma balances_loop_written:
  "balances_loop hl ys bs = Inr bs' \<Longrightarrow> distinct ys \<Longrightarrow> y \<in> set ys \<Longrightarrow>
     y < length bs \<and> schedule_balance hl (12 * y + 1) = Inr (bs' ! y)"
proof (induction ys arbitrary: bs)
  case Nil
  then show ?case by simp
next
  case (Cons x xs)
  from Cons.prems(1) obtain b where
    b: "schedule_balance hl (12 * x + 1) = Inr b" and x: "x < length bs" and
    rest: "balances_loop hl xs (bs[x := b]) = Inr bs'"
    by (auto simp: iloc_set_def split: sum.splits if_splits)
  show ?case
  proof (cases "y = x")
    case True
    with Cons.prems(2) have "x \<notin> set xs" by simp
    with rest have "bs' ! x = (bs[x := b]) ! x" by (rule balances_loop_untouched)
    with x b True show ?thesis by simp
  next
    case False
    with Cons.prems have "y \<in> set xs" "distinct xs" by auto
    with Cons.IH [OF rest] show ?thesis by simp
  qed
qed

lemma balances_loop_returns:
  "(\<forall>y \<in> set ys. y < length bs \<and> (\<exists>b. schedule_balance hl (12 * y + 1) = Inr b)) \<Longrightarrow>
     \<exists>bs'. balances_loop hl ys bs = Inr bs'"
proof (induction ys arbitrary: bs)
  case Nil
  then show ?case by simp
next
  case (Cons x xs)
  then obtain b where b: "schedule_balance hl (12 * x + 1) = Inr b" and x: "x < length bs"
    by auto
  from Cons.prems have "\<forall>y \<in> set xs. y < length (bs[x := b]) \<and>
      (\<exists>b. schedule_balance hl (12 * y + 1) = Inr b)" by simp
  from Cons.IH [OF this] b x show ?case by (simp add: iloc_set_def)
qed

lemma balances_loop_overrun:
  "(\<forall>y \<in> set pre. y < length bs) \<Longrightarrow>
   (\<forall>y \<in> set (pre @ [x]). \<exists>b. schedule_balance hl (12 * y + 1) = Inr b) \<Longrightarrow>
   length bs \<le> x \<Longrightarrow> balances_loop hl (pre @ x # post) bs = Inl IndexError"
proof (induction pre arbitrary: bs)
  case Nil
  then show ?case by (auto simp: iloc_set_def)
next
  case (Cons a pre)
  then obtain b where b: "schedule_balance hl (12 * a + 1) = Inr b" and a: "a < length bs"
    by auto
  have "balances_loop hl (pre @ x # post) (bs[a := b]) = Inl IndexError"
    using Cons.prems by (intro Cons.IH) auto
  with a b show ?case by (simp add: iloc_set_def)
qed

lemma balances_of_returns:
  assumes "loan_term p \<le> time_frame p + 1"
    and "\<forall>y < loan_term p. \<exists>b. schedule_balance hl (12 * y + 1) = Inr b"
  shows "\<exists>bs. balances_of hl p = Inr bs"
  unfolding balances_of_def using assms by (intro balances_loop_returns) auto

lemma balances_of_overrun:
  assumes "time_frame p + 1 < loan_term p"
    and "\<forall>y \<le> time_frame p + 1. \<exists>b. schedule_balance hl (12 * y + 1) = Inr b"
  shows "balances_of hl p = Inl IndexError"
proof -
  let ?n = "time_frame p + 1"
  have split: "[0 ..< loan_term p] = [0 ..< ?n] @ ?n # [Suc ?n ..< loan_term p]"
    using assms(1) by (metis less_imp_le_nat upt_add_eq_append upt_conv_Cons le_add_diff_inverse add.commute zero_le)
  show ?thesis
    unfolding balances_of_def split using assms(2)
    by (intro balances_loop_overrun) auto
qed

lemma balances_of_nth:
  assumes "balances_of hl p = Inr bs" "y \<le> time_frame p"
  shows "length bs = time_frame p + 1"
    and "y < loan_term p \<Longrightarrow> schedule_balance hl (12 * y + 1) = Inr (bs ! y)"
    and "loan_term p \<le> y \<Longrightarrow> bs ! y = 0"
proof -
  from assms(1) have run: "balances_loop hl [0 ..< loan_term p] (zeros (time_frame p + 1)) = Inr bs"
    by (simp add: balances_of_def)
  from balances_loop_length [OF run] show "length bs = time_frame p + 1" by simp
  show "schedule_balance hl (12 * y + 1) = Inr (bs ! y)" if "y < loan_term p"
    using balances_loop_written [OF run, of y] that by simp
  show "bs ! y = 0" if "loan_term p \<le> y"
    using balances_loop_untouched [OF run, of y] that assms(2) by simp
qed

lemma balances_of_bound:
  assumes "balances_of hl p = Inr bs"
  shows "loan_term p \<le> time_frame p + 1"
proof (rule ccontr)
  assume "\<not> ?thesis"
  then have t: "time_frame p + 1 < loan_term p" by simp
  from assms have run: "balances_loop hl [0 ..< loan_term p] (zeros (time_frame p + 1)) = Inr bs"
    by (simp add: balances_of_def)
  from balances_loop_written [OF run, of "time_frame p + 1"] t show False by simp
qed

subsection \<open>The renting loop\<close>

lemma renting_loop_length [simp]:
  "length (renting_loop r sv ys v avr) = length avr"
  by (induction ys arbitrary: v avr) (auto simp: setitem_def Let_def)

lemma renting_loop_untouched:
  "y \<notin> set ys \<Longrightarrow> renting_loop r sv ys v avr ! y = avr ! y"
  by (induction ys arbitrary: v avr) (auto simp: setitem_def Let_def)

lemma asset_value_after_snoc:
  "asset_value_after r sv (ys @ [y]) v = asset_value_after r sv ys v * (1 + r) + sv ! y"
  by (induction ys arbitrary: v) auto

lemma renting_loop_nth:
  "distinct ys \<Longrightarrow> \<forall>y \<in> set ys. y < length avr \<Longrightarrow> k < length ys \<Longrightarrow>
     renting_loop r sv ys v avr ! (ys ! k) = asset_value_after r sv (take (Suc k) ys) v"
proof (induction ys arbitrary: v avr k)
  case Nil
  then show ?case by simp
next
  case (Cons x xs)
  show ?case
  proof (cases k)
    case 0
    with Cons.prems show ?thesis
      by (simp add: Let_def renting_loop_untouched setitem_def)
  next
    case (Suc j)
    with Cons.prems show ?thesis
      by (simp add: Let_def setitem_def Cons.IH)
  qed
qed

lemma renting_loop_upt:
  assumes "y < n" "n \<le> length avr"
  shows "renting_loop r sv [0 ..< n] v avr ! y = asset_value_after r sv [0 ..< Suc y] v"
proof -
  have "renting_loop r sv [0 ..< n] v avr ! ([0 ..< n] ! y)
          = asset_value_after r sv (take (Suc y) [0 ..< n]) v"
    using assms by (intro renting_loop_nth) auto
  moreover have "take (Suc y) [0 ..< n] = [0 ..< Suc y]"
    using assms(1) by simp
  ultimately show ?thesis using assms(1) by simp
qed

subsection \<open>A run that returns\<close>

lemma project_InrD:
  assumes "project Loan p = Inr out"
  shows "\<exists>hl. home_loan Loan p = Inr hl \<and> build_series p hl = Inr out"
  using assms by (auto simp: project_def bind_err_def split: sum.splits)

lemma build_series_InrD:
  assumes "build_series p hl = Inr out"
  shows "loan_payments hl p = Inr (loanPayment out)"
    and "ownership_costs p = Inr (ownershipCost out)"
    and "rent_costs p = Inr (rentCost out)"
    and "balances_of hl p = Inr (loanBalance out)"
    and "years out = years_of p"
    and "expenseDifference out =
           series_sub (series_add (ownershipCost out) (loanPayment out)) (rentCost out)"
    and "propertyAssetValue out =
           series_sub (series_scale (cumulative_property_return p) (house_price p)) (loanBalance out)"
    and "portfolioAssetValue out =
           renting_loop (portfolio_return p) (expenseDifference out) (years_of p) 0
             (zeros (time_frame p + 1))"
  using assms
  by (auto simp: build_series_def bind_err_def Let_def split: sum.splits)

lemma build_series_returns:
  assumes "balances_of hl p = Inr bs"
  shows "\<exists>out. build_series p hl = Inr out"
  using assms
  by (simp add: build_series_def bind_err_def Let_def loan_payments_eq ownership_costs_eq rent_costs_eq)

lemma project_series:
  assumes run: "project Loan p = Inr out" and hl: "home_loan Loan p = Inr hl"
  shows "build_series p hl = Inr out"
    and "loanPayment out =
           map (\<lambda>y. if y = 0 then deposit_amt p
                     else if y \<le> loan_term p then monthly_payment hl * 12 else 0) (years_of p)"
    and "ownershipCost out =
           map (\<lambda>y. if y = 0 then 0 else total_ownership_cost p * (1 + inflation p) ^ y)
             (years_of p)"
    and "rentCost out =
           map (\<lambda>y. if y = 0 then (if 0 > max_rent p then max_rent p else 0)
                     else min (weekly_rent p * 52 * (1 + rent_inflation p) ^ y) (max_rent p))
             (years_of p)"
    and "balances_of hl p = Inr (loanBalance out)"
proof -
  from project_InrD [OF run] hl show b: "build_series p hl = Inr out" by auto
  from build_series_InrD(1) [OF b] show "loanPayment out =
           map (\<lambda>y. if y = 0 then deposit_amt p
                     else if y \<le> loan_term p then monthly_payment hl * 12 else 0) (years_of p)"
    by (simp add: loan_payments_eq)
  from build_series_InrD(2) [OF b] show "ownershipCost out =
           map (\<lambda>y. if y = 0 then 0 else total_ownership_cost p * (1 + inflation p) ^ y)
             (years_of p)"
    by (simp add: ownership_costs_eq)
  from build_series_InrD(3) [OF b] show "rentCost out =
           map (\<lambda>y. if y = 0 then (if 0 > max_rent p then max_rent p else 0)
                     else min (weekly_rent p * 52 * (1 + rent_inflation p) ^ y) (max_rent p))
             (years_of p)"
    by (simp add: rent_costs_eq)
  from build_series_InrD(4) [OF b] show "balances_of hl p = Inr (loanBalance out)" .
qed

lemma project_lengths:
  assumes run: "project Loan p = Inr out"
  shows "length (ownershipCost out) = time_frame p + 1"
    and "length (loanPayment out) = time_frame p + 1"
    and "length (rentCost out) = time_frame p + 1"
    and "length (expenseDifference out) = time_frame p + 1"
    and "length (loanBalance out) = time_frame p + 1"
    and "length (propertyAssetValue out) = time_frame p + 1"
    and "length (portfolioAssetValue out) = time_frame p + 1"
proof -
  from project_InrD [OF run] obtain hl where hl: "home_loan Loan p = Inr hl" by auto
  note s = project_series [OF run hl]
  note b = build_series_InrD [OF s(1)]
  show oc: "length (ownershipCost out) = time_frame p + 1" by (simp add: s(3))
  show lp: "length (loanPayment out) = time_frame p + 1" by (simp add: s(2))
  show rc: "length (rentCost out) = time_frame p + 1" by (simp add: s(4))
  show "length (expenseDifference out) = time_frame p + 1" by (simp add: b(6) oc lp rc)
  show lb: "length (loanBalance out) = time_frame p + 1"
    using balances_of_nth(1) [OF s(5), of 0] by simp
  show "length (propertyAssetValue out) = time_frame p + 1"
    by (simp add: b(7) lb cumulative_property_return_eq)
  show "length (portfolioAssetValue out) = time_frame p + 1" by (simp add: b(8))
qed

lemma project_returns:
  assumes hl: "home_loan Loan p = Inr hl"
    and sched: "\<forall>y < loan_term p. \<exists>b. schedule_balance hl (12 * y + 1) = Inr b"
    and bound: "loan_term p \<le> time_frame p + 1"
  shows "\<exists>out. project Loan p = Inr out"
proof -
  from balances_of_returns [OF bound sched] obtain bs where "balances_of hl p = Inr bs" ..
  from build_series_returns [OF this] hl show ?thesis
    by (simp add: project_def bind_err_def)
qed

subsection \<open>Failure and independence\<close>



lemma build_series_fails:
  assumes "balances_of hl p = Inl e"
  shows "build_series p hl = Inl e"
  using assms
  by (simp add: build_series_def bind_err_def Let_def loan_payments_eq ownership_costs_eq rent_costs_eq)


lemma build_series_ignores_rate:
  "build_series (p \<lparr> home_loan_rate := x \<rparr>) hl = build_series p hl"
  by (simp add: build_series_def loan_payments_def ownership_costs_def rent_costs_def
        balances_of_def years_of_def cumulative_inflation_def cumulative_rent_inflation_def
        cumulative_property_return_def yearly_property_returns_def total_ownership_cost_def
        maintenance_cost_def deposit_amt_def)

subsection \<open>Elements of the derived series\<close>

lemma project_home_loan:
  assumes "project Loan p = Inr out"
  obtains hl where "home_loan Loan p = Inr hl"
  using project_InrD [OF assms] by auto

lemma expense_difference_nth:
  assumes run: "project Loan p = Inr out" and y: "y \<le> time_frame p"
  shows "expenseDifference out ! y
           = ownershipCost out ! y + loanPayment out ! y - rentCost out ! y"
proof -
  from run obtain hl where hl: "home_loan Loan p = Inr hl" by (rule project_home_loan)
  note b = build_series_InrD [OF project_series(1) [OF run hl]]
  note l = project_lengths [OF run]
  from y show ?thesis
    by (simp add: b(6) nth_series_sub nth_series_add l)
qed

lemma portfolio_nth:
  assumes run: "project Loan p = Inr out" and y: "y \<le> time_frame p"
  shows "portfolioAssetValue out ! y
           = asset_value_after (portfolio_return p) (expenseDifference out) [0 ..< Suc y] 0"
proof -
  from run obtain hl where hl: "home_loan Loan p = Inr hl" by (rule project_home_loan)
  note b = build_series_InrD [OF project_series(1) [OF run hl]]
  from y show ?thesis
    unfolding b(8) years_of_def by (intro renting_loop_upt) auto
qed

subsection \<open>The constants of the entry point\<close>



subsection \<open>The example runs\<close>

lemma ex_run: "project ex_Loan ex_params = Inr ex_out"
  by code_simp

lemma ex_home_loan:
  "home_loan ex_Loan ex_params =
     Inr \<lparr> monthly_payment = 30000,
            schedule_balance = (\<lambda>k. if 24 < k then Inl IndexError
                                     else Inr (720000 - real k * 30000)) \<rparr>"
  by (auto simp: home_loan_def ex_Loan_def ex_params_def deposit_amt_def Let_def fun_eq_iff)

lemma short_run: "project ex_Loan short_params = Inl IndexError"
  by code_simp

lemma short_home_loan: "home_loan ex_Loan short_params = home_loan ex_Loan ex_params"
  by (simp add: home_loan_def short_params_def deposit_amt_def)

subsection \<open>Runs of the entry point with the example loan package\<close>







section \<open>The claims\<close>

text \<open>
  C1. For every year \<open>y\<close> up to the horizon of a run that returned, the property asset
  value is \<open>house_price * (1 + property_return) ^ y\<close> minus the loan balance that the
  loan's schedule gives at period \<open>12 * y + 1\<close> when \<open>y\<close> is below the term, and is
  \<open>house_price * (1 + property_return) ^ y\<close> alone from the term on.
\<close>

theorem C1_property_asset_value:
  assumes run: "project Loan p = Inr out"
    and hl: "home_loan Loan p = Inr hl"
    and y: "y \<le> time_frame p"
  shows "if y < loan_term p
         then \<exists>b. schedule_balance hl (12 * y + 1) = Inr b \<and>
                  propertyAssetValue out ! y = house_price p * (1 + property_return p) ^ y - b
         else propertyAssetValue out ! y = house_price p * (1 + property_return p) ^ y"
proof -
  note s = project_series [OF run hl]
  note b = build_series_InrD [OF s(1)]
  note bal = balances_of_nth [OF s(5) y]
  have pav: "propertyAssetValue out ! y
               = (1 + property_return p) ^ y * house_price p - loanBalance out ! y"
    using y bal(1)
    by (simp add: b(7) nth_series_sub nth_series_scale cumulative_property_return_eq nth_years_of)
  show ?thesis
  proof (cases "y < loan_term p")
    case True
    with bal(2) pav show ?thesis by (auto simp: mult.commute)
  next
    case False
    with bal(3) pav show ?thesis by (simp add: mult.commute)
  qed
qed

text \<open>The statement at years 1 (inside the term) and 3 (past it) of the example run.\<close>

theorem C1_property_asset_value_witness:
  "project ex_Loan ex_params = Inr ex_out \<and> (1::nat) \<le> time_frame ex_params
     \<and> (3::nat) \<le> time_frame ex_params
     \<and> 1 < loan_term ex_params \<and> \<not> 3 < loan_term ex_params
     \<and> propertyAssetValue ex_out ! 1 = 800000 * (1 + 3 / 100) ^ 1 - 330000
     \<and> propertyAssetValue ex_out ! 3 = 800000 * (1 + 3 / 100) ^ 3"
  using C1_property_asset_value [OF ex_run ex_home_loan, of 1]
        C1_property_asset_value [OF ex_run ex_home_loan, of 3] ex_run
  by (simp add: ex_params_def)




text \<open>
  C3. In a run that returned, the portfolio value of year 0 is the expense difference of
  year 0, which is the deposit amount (the rent cap being non-negative, as it is in
  \<^verbatim>\<open>main\<close>); for every year \<open>y\<close> from 1 to the horizon the portfolio value is the value of
  the year before times \<open>1 + portfolio_return\<close> plus the expense difference of year \<open>y\<close>;
  and the expense difference is ownership cost plus loan payment minus rent cost.
\<close>

theorem C3_portfolio_asset_value:
  assumes run: "project Loan p = Inr out" and y: "y \<le> time_frame p"
  shows "portfolioAssetValue out ! 0 = expenseDifference out ! 0 \<and>
         (0 \<le> max_rent p \<longrightarrow> expenseDifference out ! 0 = deposit_amt p) \<and>
         (1 \<le> y \<longrightarrow> portfolioAssetValue out ! y
              = portfolioAssetValue out ! (y - 1) * (1 + portfolio_return p)
                  + expenseDifference out ! y) \<and>
         expenseDifference out ! y
           = ownershipCost out ! y + loanPayment out ! y - rentCost out ! y"
proof (intro conjI impI)
  show "portfolioAssetValue out ! 0 = expenseDifference out ! 0"
    using portfolio_nth [OF run, of 0] by simp
next
  assume cap: "0 \<le> max_rent p"
  from run obtain hl where hl: "home_loan Loan p = Inr hl" by (rule project_home_loan)
  note s = project_series [OF run hl]
  have "ownershipCost out ! 0 = 0" "loanPayment out ! 0 = deposit_amt p" "rentCost out ! 0 = 0"
    using cap by (simp_all add: s(2,3,4) years_of_def upt_rec [of 0])
  with expense_difference_nth [OF run, of 0]
  show "expenseDifference out ! 0 = deposit_amt p" by simp
next
  assume y1: "1 \<le> y"
  then obtain k where k: "y = Suc k" by (cases y) auto
  with y have "k \<le> time_frame p" by simp
  have "[0 ..< Suc (Suc k)] = [0 ..< Suc k] @ [Suc k]" by simp
  then have "asset_value_after (portfolio_return p) (expenseDifference out) [0 ..< Suc (Suc k)] 0
      = asset_value_after (portfolio_return p) (expenseDifference out) [0 ..< Suc k] 0
          * (1 + portfolio_return p) + expenseDifference out ! Suc k"
    by (simp only: asset_value_after_snoc)
  with portfolio_nth [OF run \<open>k \<le> time_frame p\<close>] portfolio_nth [OF run y]
  show "portfolioAssetValue out ! y
          = portfolioAssetValue out ! (y - 1) * (1 + portfolio_return p)
              + expenseDifference out ! y"
    unfolding k by simp
next
  show "expenseDifference out ! y
          = ownershipCost out ! y + loanPayment out ! y - rentCost out ! y"
    using run y by (rule expense_difference_nth)
qed

text \<open>The statement at year 2 of the example run.\<close>

theorem C3_portfolio_asset_value_witness:
  "project ex_Loan ex_params = Inr ex_out \<and> (2::nat) \<le> time_frame ex_params
     \<and> 0 \<le> max_rent ex_params \<and> (1::nat) \<le> 2
     \<and> portfolioAssetValue ex_out ! 0 = expenseDifference ex_out ! 0
     \<and> expenseDifference ex_out ! 0 = 80000
     \<and> portfolioAssetValue ex_out ! 2 = 432666 * (1 + 5 / 100) + 43516856 / 125
     \<and> expenseDifference ex_out ! 2 = 3266856 / 125 + 360000 - 38000"
  using C3_portfolio_asset_value [OF ex_run, of 2] ex_run
  by (simp add: ex_params_def ex_out_def deposit_amt_def)

text \<open>
  C4. In a run that returned, the rent cost of year 0 is 0 (the rent cap being
  non-negative), the rent cost of every year \<open>y\<close> from 1 on is the smaller of
  \<open>weekly_rent * 52 * (1 + rent_inflation) ^ y\<close> and the cap, each year on its own, and no
  year's rent cost exceeds the cap.
\<close>

theorem C4_rent_cost:
  assumes run: "project Loan p = Inr out" and y: "y \<le> time_frame p"
  shows "(0 \<le> max_rent p \<longrightarrow> rentCost out ! 0 = 0) \<and>
         (1 \<le> y \<longrightarrow> rentCost out ! y
              = min (weekly_rent p * 52 * (1 + rent_inflation p) ^ y) (max_rent p)) \<and>
         rentCost out ! y \<le> max_rent p"
proof -
  from run obtain hl where hl: "home_loan Loan p = Inr hl" by (rule project_home_loan)
  note s = project_series [OF run hl]
  from y have "rentCost out ! y =
      (if y = 0 then (if 0 > max_rent p then max_rent p else 0)
       else min (weekly_rent p * 52 * (1 + rent_inflation p) ^ y) (max_rent p))"
    by (simp add: s(4) nth_years_of)
  moreover have "rentCost out ! 0 = (if 0 > max_rent p then max_rent p else 0)"
    by (simp add: s(4) nth_years_of)
  ultimately show ?thesis by auto
qed

text \<open>The statement at year 2 of the example run, where the cap of 38000 applies.\<close>

theorem C4_rent_cost_witness:
  "project ex_Loan ex_params = Inr ex_out \<and> (2::nat) \<le> time_frame ex_params
     \<and> 0 \<le> max_rent ex_params \<and> (1::nat) \<le> 2
     \<and> rentCost ex_out ! 0 = 0
     \<and> rentCost ex_out ! 2 = min (690 * 52 * (1 + 3 / 100) ^ 2) 38000
     \<and> rentCost ex_out ! 2 \<le> 38000"
  using C4_rent_cost [OF ex_run, of 2] ex_run
  by (simp add: ex_params_def)

text \<open>
  C5. In a run that returned, the loan payment of year 0 is
  \<open>house_price * deposit_pct\<close>, that of every year from 1 to the term is twelve monthly
  payments of the loan, not adjusted for inflation, and that of every later year up to the
  horizon is 0.
\<close>

theorem C5_loan_payment:
  assumes run: "project Loan p = Inr out"
    and hl: "home_loan Loan p = Inr hl"
    and y: "y \<le> time_frame p"
  shows "loanPayment out ! 0 = house_price p * deposit_pct p \<and>
         (1 \<le> y \<and> y \<le> loan_term p \<longrightarrow> loanPayment out ! y = monthly_payment hl * 12) \<and>
         (loan_term p < y \<longrightarrow> loanPayment out ! y = 0)"
proof -
  note s = project_series [OF run hl]
  have "loanPayment out ! 0 = deposit_amt p"
    by (simp add: s(2) nth_years_of)
  moreover from y have "loanPayment out ! y =
      (if y = 0 then deposit_amt p
       else if y \<le> loan_term p then monthly_payment hl * 12 else 0)"
    by (simp add: s(2) nth_years_of)
  ultimately show ?thesis by (auto simp: deposit_amt_def)
qed

text \<open>The statement at years 2 and 3 of the example run, whose term is 2.\<close>

theorem C5_loan_payment_witness:
  "project ex_Loan ex_params = Inr ex_out \<and> (3::nat) \<le> time_frame ex_params
     \<and> (1::nat) \<le> 2 \<and> 2 \<le> loan_term ex_params \<and> loan_term ex_params < 3
     \<and> loanPayment ex_out ! 0 = 800000 * (1 / 10)
     \<and> loanPayment ex_out ! 2 = 30000 * 12
     \<and> loanPayment ex_out ! 3 = 0"
  using C5_loan_payment [OF ex_run ex_home_loan, of 2]
        C5_loan_payment [OF ex_run ex_home_loan, of 3] ex_run
  by (simp add: ex_params_def)

text \<open>
  C6. In a run that returned, the ownership cost of year 0 is 0 and that of every year
  \<open>y\<close> from 1 on is \<open>(maintenance + strata * 4 + insurance * 12 + transport * 52) *
  (1 + inflation) ^ y\<close>, the maintenance being one per cent of the initial house price in
  every year.
\<close>

theorem C6_ownership_cost:
  assumes run: "project Loan p = Inr out" and y: "y \<le> time_frame p"
  shows "ownershipCost out ! 0 = 0 \<and>
         (1 \<le> y \<longrightarrow> ownershipCost out ! y
              = (0.01 * house_price p + strata_council_cost p * 4 + home_insurance p * 12
                   + transport_cost p * 52) * (1 + inflation p) ^ y)"
proof -
  from run obtain hl where hl: "home_loan Loan p = Inr hl" by (rule project_home_loan)
  note s = project_series [OF run hl]
  have "ownershipCost out ! 0 = 0"
    by (simp add: s(3) nth_years_of)
  moreover from y have "ownershipCost out ! y =
      (if y = 0 then 0 else total_ownership_cost p * (1 + inflation p) ^ y)"
    by (simp add: s(3) nth_years_of)
  ultimately show ?thesis
    by (auto simp: total_ownership_cost_def maintenance_cost_def)
qed

text \<open>The statement at year 2 of the example run.\<close>

theorem C6_ownership_cost_witness:
  "project ex_Loan ex_params = Inr ex_out \<and> (2::nat) \<le> time_frame ex_params \<and> (1::nat) \<le> 2
     \<and> ownershipCost ex_out ! 0 = 0
     \<and> ownershipCost ex_out ! 2
         = (0.01 * 800000 + 1500 * 4 + 60 * 12 + 200 * 52) * (1 + 2 / 100) ^ 2"
  using C6_ownership_cost [OF ex_run, of 2] ex_run
  by (simp add: ex_params_def)

text \<open>
  C7. The rate that \<^verbatim>\<open>read_loan_inputs\<close> returns for a nominal annual percentage is
  \<open>(1 + (rate / 100) / 365) ^ 365 - 1\<close>; \<^verbatim>\<open>main\<close> hands exactly this rate to the loan
  constructor, and the rate reaches the series only through the loan so built.
\<close>

theorem C7_effective_daily_rate:
  "snd (snd (snd (read_loan_inputs hp dp t rate))) = (1 + (rate / 100) / 365) ^ 365 - 1 \<and>
   home_loan_rate (main_params w) = (1 + (w_home_loan_rate w / 100) / 365) ^ 365 - 1 \<and>
   main Loan w =
     bind_err (Loan (house_price (main_params w) - deposit_amt (main_params w))
                    ((1 + (w_home_loan_rate w / 100) / 365) ^ 365 - 1) (w_term w))
       (build_series (main_params w)) \<and>
   build_series (p \<lparr> home_loan_rate := x \<rparr>) hl = build_series p hl"
proof (intro conjI)
  show "snd (snd (snd (read_loan_inputs hp dp t rate))) = (1 + (rate / 100) / 365) ^ 365 - 1"
    by (simp add: read_loan_inputs_def)
  show r: "home_loan_rate (main_params w) = (1 + (w_home_loan_rate w / 100) / 365) ^ 365 - 1"
    by (simp add: main_params_def read_loan_inputs_def read_ownership_cost_input_def
          split: prod.splits)
  have t: "loan_term (main_params w) = w_term w"
    by (simp add: main_params_def read_loan_inputs_def read_ownership_cost_input_def
          split: prod.splits)
  show "main Loan w =
     bind_err (Loan (house_price (main_params w) - deposit_amt (main_params w))
                    ((1 + (w_home_loan_rate w / 100) / 365) ^ 365 - 1) (w_term w))
       (build_series (main_params w))"
    unfolding main_def project_def home_loan_def r t ..
  show "build_series (p \<lparr> home_loan_rate := x \<rparr>) hl = build_series p hl"
    by (rule build_series_ignores_rate)
qed

text \<open>
  C8. In a run that returned, the year index is \<open>0..time_frame\<close> and each of the six
  series has length \<open>time_frame + 1\<close>.
\<close>

theorem C8_series_lengths:
  assumes run: "project Loan p = Inr out"
  shows "years out = [0 ..< time_frame p + 1] \<and>
         length (ownershipCost out) = time_frame p + 1 \<and>
         length (loanPayment out) = time_frame p + 1 \<and>
         length (rentCost out) = time_frame p + 1 \<and>
         length (expenseDifference out) = time_frame p + 1 \<and>
         length (propertyAssetValue out) = time_frame p + 1 \<and>
         length (portfolioAssetValue out) = time_frame p + 1"
proof -
  from run obtain hl where hl: "home_loan Loan p = Inr hl" by (rule project_home_loan)
  from build_series_InrD(5) [OF project_series(1) [OF run hl]]
  have "years out = [0 ..< time_frame p + 1]" by (simp add: years_of_def)
  with project_lengths [OF run] show ?thesis by simp
qed

text \<open>The lengths in the example run, whose horizon is 3.\<close>

theorem C8_series_lengths_witness:
  "project ex_Loan ex_params = Inr ex_out \<and>
   years ex_out = [0, 1, 2, 3] \<and>
   length (ownershipCost ex_out) = 4 \<and> length (loanPayment ex_out) = 4 \<and>
   length (rentCost ex_out) = 4 \<and> length (expenseDifference ex_out) = 4 \<and>
   length (propertyAssetValue ex_out) = 4 \<and> length (portfolioAssetValue ex_out) = 4"
  using C8_series_lengths [OF ex_run] ex_run
  by (simp add: ex_params_def upt_rec)

text \<open>
  C9. For a positive inflation rate, a positive house price and non-negative recurring
  costs, the ownership cost of a run that returned grows strictly from year to year from
  year 1 on.
\<close>

theorem C9_ownership_cost_increasing:
  assumes run: "project Loan p = Inr out"
    and infl: "0 < inflation p"
    and price: "0 < house_price p"
    and costs: "0 \<le> strata_council_cost p" "0 \<le> home_insurance p" "0 \<le> transport_cost p"
    and y: "1 \<le> y" "y + 1 \<le> time_frame p"
  shows "ownershipCost out ! (y + 1) > ownershipCost out ! y"
proof -
  from run obtain hl where hl: "home_loan Loan p = Inr hl" by (rule project_home_loan)
  note s = project_series [OF run hl]
  from price costs have total: "0 < total_ownership_cost p"
    by (simp add: total_ownership_cost_def maintenance_cost_def add_pos_nonneg)
  from y have a: "ownershipCost out ! y = total_ownership_cost p * (1 + inflation p) ^ y"
    by (simp add: s(3) nth_years_of)
  from y have b: "ownershipCost out ! (y + 1)
                    = total_ownership_cost p * (1 + inflation p) ^ (y + 1)"
    by (simp add: s(3) nth_years_of)
  from infl have "(1 + inflation p) ^ y < (1 + inflation p) ^ (y + 1)"
    by (intro power_strict_increasing) auto
  with total show ?thesis unfolding a b by simp
qed

text \<open>Years 1 and 2 of the example run.\<close>

theorem C9_ownership_cost_increasing_witness:
  "project ex_Loan ex_params = Inr ex_out \<and> 0 < inflation ex_params \<and> 0 < house_price ex_params
     \<and> 0 \<le> strata_council_cost ex_params \<and> 0 \<le> home_insurance ex_params
     \<and> 0 \<le> transport_cost ex_params \<and> (1::nat) \<le> 1 \<and> 1 + 1 \<le> time_frame ex_params
     \<and> ownershipCost ex_out ! (1 + 1) > ownershipCost ex_out ! 1"
  using C9_ownership_cost_increasing [OF ex_run, of 1] ex_run
  by (simp add: ex_params_def)

text \<open>
  C10. When the term is at most the horizon and the loan package builds the loan and
  answers the schedule lookups, the projection returns: the balance loop writes below the
  term only, the balance series keeps its length \<open>time_frame + 1\<close> and its zeros from the
  term on. When the term exceeds the horizon plus one, the loop's write at position
  \<open>time_frame + 1\<close> raises IndexError, and there is such an input.
\<close>

theorem C10_balance_loop_bounds:
  "(home_loan Loan p = Inr hl \<and> loan_term p \<le> time_frame p \<and>
      (\<forall>y < loan_term p. \<exists>b. schedule_balance hl (12 * y + 1) = Inr b)
    \<longrightarrow> (\<exists>out. project Loan p = Inr out \<and> length (loanBalance out) = time_frame p + 1 \<and>
               (\<forall>y. loan_term p \<le> y \<and> y \<le> time_frame p \<longrightarrow> loanBalance out ! y = 0))) \<and>
   (home_loan Loan p = Inr hl \<and> time_frame p + 1 < loan_term p \<and>
      (\<forall>y \<le> time_frame p + 1. \<exists>b. schedule_balance hl (12 * y + 1) = Inr b)
    \<longrightarrow> project Loan p = Inl IndexError) \<and>
   (\<exists>Loan' p'. time_frame p' + 1 < loan_term p' \<and> project Loan' p' = Inl IndexError)"
proof (intro conjI impI)
  assume a: "home_loan Loan p = Inr hl \<and> loan_term p \<le> time_frame p \<and>
      (\<forall>y < loan_term p. \<exists>b. schedule_balance hl (12 * y + 1) = Inr b)"
  then have hl: "home_loan Loan p = Inr hl" by simp
  from a have "\<exists>out. project Loan p = Inr out" by (intro project_returns [of Loan p hl]) auto
  then obtain out where run: "project Loan p = Inr out" ..
  note bal = project_series(5) [OF run hl]
  have "loanBalance out ! y = 0" if "loan_term p \<le> y \<and> y \<le> time_frame p" for y
    using balances_of_nth(3) [OF bal, of y] that by simp
  with run project_lengths(5) [OF run]
  show "\<exists>out. project Loan p = Inr out \<and> length (loanBalance out) = time_frame p + 1 \<and>
               (\<forall>y. loan_term p \<le> y \<and> y \<le> time_frame p \<longrightarrow> loanBalance out ! y = 0)"
    by blast
next
  assume b: "home_loan Loan p = Inr hl \<and> time_frame p + 1 < loan_term p \<and>
      (\<forall>y \<le> time_frame p + 1. \<exists>b. schedule_balance hl (12 * y + 1) = Inr b)"
  then have "balances_of hl p = Inl IndexError" by (intro balances_of_overrun) auto
  from build_series_fails [OF this] b show "project Loan p = Inl IndexError"
    by (simp add: project_def bind_err_def)
next
  have "time_frame short_params + 1 < loan_term short_params"
    by (simp add: short_params_def ex_params_def)
  with short_run
  show "\<exists>Loan' p'. time_frame p' + 1 < loan_term p' \<and> project Loan' p' = Inl IndexError"
    by blast
qed

text \<open>Both cases on the example: term 2 with horizon 3, and term 2 with horizon 0.\<close>

theorem C10_balance_loop_bounds_witness:
  "loan_term ex_params \<le> time_frame ex_params \<and>
   (\<exists>out. project ex_Loan ex_params = Inr out \<and> length (loanBalance out) = 4 \<and>
          loanBalance out ! 2 = 0 \<and> loanBalance out ! 3 = 0) \<and>
   time_frame short_params + 1 < loan_term short_params \<and>
   project ex_Loan short_params = Inl IndexError"
proof -
  let ?hl = "\<lparr> monthly_payment = 30000,
            schedule_balance = (\<lambda>k. if 24 < k then Inl IndexError
                                     else Inr (720000 - real k * 30000)) \<rparr>"
  have t: "loan_term ex_params \<le> time_frame ex_params" "loan_term ex_params = 2"
    "time_frame ex_params = 3"
    by (simp_all add: ex_params_def)
  have s: "\<forall>y < loan_term ex_params. \<exists>b. schedule_balance ?hl (12 * y + 1) = Inr b"
    by (simp add: ex_params_def)
  have t': "time_frame short_params + 1 < loan_term short_params"
    by (simp add: short_params_def ex_params_def)
  have s': "\<forall>y \<le> time_frame short_params + 1. \<exists>b. schedule_balance ?hl (12 * y + 1) = Inr b"
    by (simp add: short_params_def ex_params_def)
  from C10_balance_loop_bounds [of ex_Loan ex_params ?hl] ex_home_loan t(1) s
  obtain out where out: "project ex_Loan ex_params = Inr out"
      "length (loanBalance out) = time_frame ex_params + 1"
      "\<forall>y. loan_term ex_params \<le> y \<and> y \<le> time_frame ex_params \<longrightarrow> loanBalance out ! y = 0"
    by blast
  from out(3) have "loanBalance out ! 2 = 0" "loanBalance out ! 3 = 0"
    unfolding t(2,3) by simp_all
  with out(1,2) have 1: "\<exists>out. project ex_Loan ex_params = Inr out \<and>
      length (loanBalance out) = 4 \<and> loanBalance out ! 2 = 0 \<and> loanBalance out ! 3 = 0"
    unfolding t(3) by auto
  from C10_balance_loop_bounds [of ex_Loan short_params ?hl] ex_home_loan short_home_loan t' s'
  have 2: "project ex_Loan short_params = Inl IndexError" by simp
  from t(1) 1 t' 2 show ?thesis by blast
qed

end
